theory Spec2Isabelle
  imports Main "HOL-Library.Word"
begin

unbundle bit_operations_syntax

section \<open>The GLX backend of compton (src/backend/gl/glx.c)\<close>

text \<open>
  A shallow embedding of the GLX backend: FBConfig ranking and selection, the
  per-window texture binding (prepare, release), the compose path, buffer age
  and teardown. Calls into Xlib, xcb, GLX, OpenGL and libc are recorded, in the
  order the code makes them, as a list of \<open>call\<close> values; what the X server and
  the GL driver answer is read from the \<open>display\<close> record.
\<close>

subsection \<open>C types\<close>

text \<open>\<open>int\<close>, \<open>GLint\<close>: 32 bits, read as two's complement by \<open>sint\<close>; arithmetic wraps.\<close>
type_synonym cint = "32 word"
text \<open>\<open>GLuint\<close>, \<open>GLenum\<close>, \<open>unsigned int\<close>.\<close>
type_synonym GLuint = "32 word"
type_synonym GLenum = "32 word"
text \<open>X resource ids: \<open>xcb_pixmap_t\<close>, \<open>xcb_window_t\<close>, \<open>GLXPixmap\<close>, \<open>GLXDrawable\<close>; 0 is \<open>XCB_NONE\<close>.\<close>
type_synonym xid = "32 word"
text \<open>Opaque driver handles; for \<open>GLXContext\<close> 0 is the null pointer.\<close>
type_synonym GLXFBConfig = nat
type_synonym GLXContext = nat

text \<open>
  What can go wrong inside the C code without the code noticing: an array
  access outside the array, and the use of a local variable that was never
  written.
\<close>
datatype error = OutOfBounds | UninitialisedRead

text \<open>The FBConfig attributes that glx.c queries.\<close>
datatype glx_attrib =
    GLX_RED_SIZE
  | GLX_BIND_TO_TEXTURE_RGBA_EXT
  | GLX_BIND_TO_TEXTURE_RGB_EXT
  | GLX_DOUBLEBUFFER
  | GLX_STENCIL_SIZE
  | GLX_DEPTH_SIZE
  | GLX_BIND_TO_MIPMAP_TEXTURE_EXT
  | GLX_SAMPLES
  | GLX_BUFFER_SIZE
  | GLX_ALPHA_SIZE
  | GLX_BIND_TO_TEXTURE_TARGETS_EXT
  | GLX_Y_INVERTED_EXT

text \<open>Constants of the GL and GLX headers.\<close>
definition GLX_TEXTURE_FORMAT_EXT :: cint where "GLX_TEXTURE_FORMAT_EXT = 0x20D5"
definition GLX_TEXTURE_TARGET_EXT :: cint where "GLX_TEXTURE_TARGET_EXT = 0x20D6"
definition GLX_TEXTURE_FORMAT_RGB_EXT :: cint where "GLX_TEXTURE_FORMAT_RGB_EXT = 0x20D9"
definition GLX_TEXTURE_FORMAT_RGBA_EXT :: cint where "GLX_TEXTURE_FORMAT_RGBA_EXT = 0x20DA"
definition GLX_TEXTURE_2D_EXT :: cint where "GLX_TEXTURE_2D_EXT = 0x20DC"
definition GLX_TEXTURE_RECTANGLE_EXT :: cint where "GLX_TEXTURE_RECTANGLE_EXT = 0x20DD"
definition GLX_FRONT_LEFT_EXT :: cint where "GLX_FRONT_LEFT_EXT = 0x20DE"
definition GLX_TEXTURE_2D_BIT_EXT :: cint where "GLX_TEXTURE_2D_BIT_EXT = 0x2"
definition GLX_TEXTURE_RECTANGLE_BIT_EXT :: cint where "GLX_TEXTURE_RECTANGLE_BIT_EXT = 0x4"
definition GL_TEXTURE_2D :: GLenum where "GL_TEXTURE_2D = 0x0DE1"
definition GL_TEXTURE_RECTANGLE :: GLenum where "GL_TEXTURE_RECTANGLE = 0x84F5"
definition GL_TEXTURE_MAG_FILTER :: GLenum where "GL_TEXTURE_MAG_FILTER = 0x2800"
definition GL_TEXTURE_MIN_FILTER :: GLenum where "GL_TEXTURE_MIN_FILTER = 0x2801"
definition GL_TEXTURE_WRAP_S :: GLenum where "GL_TEXTURE_WRAP_S = 0x2802"
definition GL_TEXTURE_WRAP_T :: GLenum where "GL_TEXTURE_WRAP_T = 0x2803"
definition GL_NEAREST :: cint where "GL_NEAREST = 0x2600"
definition GL_CLAMP_TO_EDGE :: cint where "GL_CLAMP_TO_EDGE = 0x812F"

text \<open>
  Modelled from the spec: \<open>OPENGL_MAX_DEPTH\<close> is defined in common.h, which is
  not among the sources. The spec's scenario has \<open>maxDepth = 32\<close>, and
  \<open>glx_update_fbconfig\<close> reads \<open>gd->fbconfigs[32]\<close> of an array of
  \<open>OPENGL_MAX_DEPTH + 1\<close> entries.
\<close>
definition OPENGL_MAX_DEPTH :: cint where "OPENGL_MAX_DEPTH = 32"

subsection \<open>Data\<close>

text \<open>\<open>struct glx_fbconfig\<close>.\<close>
record glx_fbconfig_t =
  cfg :: GLXFBConfig
  texture_fmt :: cint
  texture_tgts :: cint
  y_inverted :: bool

text \<open>
  \<open>gl_texture_t\<close> (gl_common.h), the fields glx.c uses. The field
  \<open>y_inverted\<close> is written \<open>tex_y_inverted\<close> here to keep it apart from the
  one of \<open>glx_fbconfig_t\<close>.
\<close>
record gl_texture_t =
  texture :: GLuint
  target :: GLenum
  width :: cint
  height :: cint
  tex_y_inverted :: bool

text \<open>\<open>struct _glx_win_data\<close>; the field \<open>texture\<close> is written \<open>wd_texture\<close>.\<close>
record glx_win_data =
  wd_texture :: gl_texture_t
  glpixmap :: xid
  pixmap :: xid

text \<open>
  \<open>win\<close> (win.h), the fields glx.c uses: \<open>id\<close>, \<open>g.depth\<close> (a \<open>uint8_t\<close> of
  the geometry reply), \<open>widthb\<close>, \<open>heightb\<close>. \<open>win_data\<close> is the binding the
  compositor keeps for the window and hands to the backend (\<open>None\<close>: no
  binding); the \<open>next\<close> pointer is the list \<open>ps->list\<close>.
\<close>
record win =
  id :: xid
  g_depth :: "8 word"
  widthb :: cint
  heightb :: cint
  win_data :: "glx_win_data option"

text \<open>
  What the X server and the GL driver answer. \<open>None\<close> is the failing return
  (a status other than \<open>Success\<close>, a null pointer, a value not written).
\<close>
record display =
  fbconfig_attrib :: "GLXFBConfig \<Rightarrow> glx_attrib \<Rightarrow> cint option"
  fbconfig_visual_depth :: "GLXFBConfig \<Rightarrow> cint option"
  screen_fbconfigs :: "GLXFBConfig list"
  back_buffer_age :: "xid \<Rightarrow> GLuint option"
  generate_id :: xid
  create_glx_pixmap :: "GLXFBConfig \<Rightarrow> xid \<Rightarrow> xid"
  gen_texture :: GLuint

datatype swap_method = SWAPM_UNDEFINED | SWAPM_COPY | SWAPM_EXCHANGE | SWAPM_BUFFER_AGE

text \<open>\<open>session_t\<close> (common.h), the fields glx.c uses.\<close>
record session =
  dpy :: display
  depth :: cint
  root_height :: cint
  root :: xid
  overlay :: xid
  has_name_pixmap :: bool
  glx_swap_method :: swap_method
  win_list :: "win list"

text \<open>
  \<open>struct _glx_data\<close>. \<open>fbconfigs\<close> is the array of \<open>OPENGL_MAX_DEPTH + 1\<close>
  pointers (\<open>None\<close>: null); \<open>blur_shader\<close> the array of \<open>MAX_BLUR_PASS\<close> shader
  records, of which only the number matters here. The resolved entry point
  \<open>glXReleaseTexImage\<close> appears as the call made through it;
  \<open>glXBindTexImage\<close> is called by \<open>glx_render_win\<close> only.
\<close>
record glx_data =
  ctx :: GLXContext
  non_power_of_two_texture :: bool
  blur_shader :: "unit list"
  fbconfigs :: "glx_fbconfig_t option list"

text \<open>
  \<open>pixman_box32_t\<close>; a \<open>region_t\<close> is taken as the list of its rectangles,
  the array \<open>pixman_region32_rectangles\<close> gives access to.
\<close>
record box =
  x1 :: cint
  y1 :: cint
  x2 :: cint
  y2 :: cint

type_synonym region_t = "box list"

text \<open>
  The arguments of one \<open>gl_compose\<close> call (gl_common.h), in the order of the
  call in \<open>glx_compose\<close>; the shader argument is always \<open>&gd->win_shader\<close>.
\<close>
record gl_compose_args =
  arg_ptex :: gl_texture_t
  arg_x :: cint
  arg_y :: cint
  arg_dx :: cint
  arg_dy :: cint
  arg_width :: cint
  arg_height :: cint
  arg_z :: cint
  arg_opacity :: int
  arg_argb :: bool
  arg_neg :: bool
  arg_reg_tgt :: region_t

text \<open>
  The calls glx.c makes into its libraries, with their arguments; a call that
  creates a resource also carries the handle it returned. \<open>LogError\<close> is
  \<open>log_error\<close> with its format string; \<open>log_debug\<close> and \<open>log_info\<close> are not
  recorded.
\<close>
datatype call =
    GlBindTexture GLenum GLuint
  | GlXReleaseTexImage xid cint
  | GlXCreatePixmap GLXFBConfig xid "cint list" xid
  | GlXDestroyPixmap xid
  | GlGenTextures GLuint
  | GlDeleteTextures GLuint
  | GlTexParameteri GLenum GLenum cint
  | GlCheckErr
  | XcbGenerateId xid
  | XcbCompositeNameWindowPixmap xid xid
  | XcbFreePixmap xid
  | GlFreeBlurShader nat
  | GlFreeProgMain
  | GlXDestroyContext GLXContext
  | Free_fbconfig nat "glx_fbconfig_t option"
  | Free_win_data
  | Free_glx_data
  | GlCompose gl_compose_args
  | LogError string

subsection \<open>The depth-indexed table\<close>

text \<open>
  \<open>gd->fbconfigs[i]\<close> for an \<open>int\<close> index: outside the array the access is
  an error of the model (undefined behaviour in C).
\<close>
definition fbconfigs_get :: "glx_data \<Rightarrow> cint \<Rightarrow> error + glx_fbconfig_t option" where
  "fbconfigs_get gd i =
     (if 0 \<le> sint i \<and> nat (sint i) < length (fbconfigs gd)
      then Inr (fbconfigs gd ! nat (sint i))
      else Inl OutOfBounds)"

definition fbconfigs_set :: "glx_data \<Rightarrow> cint \<Rightarrow> glx_fbconfig_t option \<Rightarrow> error + glx_data" where
  "fbconfigs_set gd i v =
     (if 0 \<le> sint i \<and> nat (sint i) < length (fbconfigs gd)
      then Inr (gd\<lparr>fbconfigs := (fbconfigs gd)[nat (sint i) := v]\<rparr>)
      else Inl OutOfBounds)"

subsection \<open>Ranking FBConfigs\<close>

text \<open>
  \<open>glXGetFBConfigAttrib(dpy, cfg, attr, &value)\<close>: on \<open>Success\<close> the value is
  written, otherwise \<open>*value\<close> keeps what it held, which is the second
  argument here.
\<close>
definition glXGetFBConfigAttrib :: "display \<Rightarrow> GLXFBConfig \<Rightarrow> glx_attrib \<Rightarrow> cint \<Rightarrow> bool \<times> cint" where
  "glXGetFBConfigAttrib d c attr old =
     (case fbconfig_attrib d c attr of
        None \<Rightarrow> (False, old)
      | Some v \<Rightarrow> (True, v))"

definition glx_cmp_fbconfig_cmpattr ::
  "session \<Rightarrow> glx_fbconfig_t \<Rightarrow> glx_fbconfig_t \<Rightarrow> glx_attrib \<Rightarrow> cint" where
  "glx_cmp_fbconfig_cmpattr ps pfbc_a pfbc_b attr =
     (let attr_a = snd (glXGetFBConfigAttrib (dpy ps) (cfg pfbc_a) attr 0);
          attr_b = snd (glXGetFBConfigAttrib (dpy ps) (cfg pfbc_b) attr 0)
      in attr_a - attr_b)"

text \<open>
  \<open>glx_cmp_fbconfig\<close>. \<open>tmpattr\<close> is declared without a value: if the first
  query of \<open>GLX_RED_SIZE\<close> fails, the comparison \<open>tmpattr != 8\<close> reads an
  unwritten variable (\<open>UninitialisedRead\<close>); if the second fails, \<open>tmpattr\<close>
  still holds the red size of the first config. The macros \<open>P_CMPATTR_LT\<close>
  and \<open>P_CMPATTR_GT\<close> are expanded.
\<close>
definition glx_cmp_fbconfig ::
  "session \<Rightarrow> glx_fbconfig_t option \<Rightarrow> glx_fbconfig_t option \<Rightarrow> error + cint" where
  "glx_cmp_fbconfig ps pfbc_a pfbc_b =
     (case pfbc_a of None \<Rightarrow> Inr (- 1) | Some a \<Rightarrow>
     (case pfbc_b of None \<Rightarrow> Inr 1 | Some b \<Rightarrow>
     (case fbconfig_attrib (dpy ps) (cfg a) GLX_RED_SIZE of
        None \<Rightarrow> Inl UninitialisedRead
      | Some red_a \<Rightarrow>
          if red_a \<noteq> 8 then Inr (- 1)
          else
            let tmpattr = snd (glXGetFBConfigAttrib (dpy ps) (cfg b) GLX_RED_SIZE red_a) in
            if tmpattr \<noteq> 8 then Inr 1
            else
              let r1 = glx_cmp_fbconfig_cmpattr ps a b GLX_BIND_TO_TEXTURE_RGBA_EXT in
              if r1 \<noteq> 0 then Inr (- r1) else
              let r2 = glx_cmp_fbconfig_cmpattr ps a b GLX_DOUBLEBUFFER in
              if r2 \<noteq> 0 then Inr (- r2) else
              let r3 = glx_cmp_fbconfig_cmpattr ps a b GLX_STENCIL_SIZE in
              if r3 \<noteq> 0 then Inr (- r3) else
              let r4 = glx_cmp_fbconfig_cmpattr ps a b GLX_DEPTH_SIZE in
              if r4 \<noteq> 0 then Inr (- r4) else
              let r5 = glx_cmp_fbconfig_cmpattr ps a b GLX_BIND_TO_MIPMAP_TEXTURE_EXT in
              if r5 \<noteq> 0 then Inr r5 else
              Inr 0)))"

text \<open>
  \<open>glx_update_fbconfig_bydepth\<close>: the entry is read for the comparison and,
  when the candidate wins, allocated if null and overwritten with a copy of the
  candidate.
\<close>
definition glx_update_fbconfig_bydepth ::
  "session \<Rightarrow> glx_data \<Rightarrow> cint \<Rightarrow> glx_fbconfig_t \<Rightarrow> error + glx_data" where
  "glx_update_fbconfig_bydepth ps gd d pfbcfg =
     (if d <s 0 \<or> OPENGL_MAX_DEPTH <s d then Inr gd
      else
        (case fbconfigs_get gd d of Inl e \<Rightarrow> Inl e | Inr cur \<Rightarrow>
        (case glx_cmp_fbconfig ps cur (Some pfbcfg) of Inl e \<Rightarrow> Inl e | Inr r \<Rightarrow>
           if r <s 0 then fbconfigs_set gd d (Some pfbcfg) else Inr gd)))"

subsection \<open>Selecting FBConfigs\<close>

text \<open>
  One round of the loop of \<open>glx_update_fbconfig\<close>, up to its two calls of
  \<open>glx_update_fbconfig_bydepth\<close>: the log output of the round, and the
  arguments \<open>(depth, fbinfo)\<close> of the calls it makes, in order. A round left by
  \<open>continue\<close> makes none. \<open>GLX_SAMPLES\<close> is defined by GL/glx.h, so the
  multisample test is compiled in. \<open>val\<close> is read only after a query has
  written it.
\<close>
definition glx_update_fbconfig_offers ::
  "session \<Rightarrow> GLXFBConfig \<Rightarrow> call list \<times> (cint \<times> glx_fbconfig_t) list" where
  "glx_update_fbconfig_offers ps pcur =
     (let d = dpy ps;
          (s_ok, s_val) = glXGetFBConfigAttrib d pcur GLX_SAMPLES 0
      in
        if s_ok \<and> 1 <s s_val then ([], [])
        else
          let (b_ok, bufsz) = glXGetFBConfigAttrib d pcur GLX_BUFFER_SIZE 0;
              (a_ok, depth_alpha) = glXGetFBConfigAttrib d pcur GLX_ALPHA_SIZE 0
          in
            if \<not> (b_ok \<and> a_ok)
            then ([LogError ''Failed to retrieve buffer size and alpha size of FBConfig %d.''], [])
            else
              let (t_ok, tgts) = glXGetFBConfigAttrib d pcur GLX_BIND_TO_TEXTURE_TARGETS_EXT 0
              in
                if \<not> t_ok
                then ([LogError ''Failed to retrieve BIND_TO_TEXTURE_TARGETS_EXT of FBConfig %d.''], [])
                else
                  (case fbconfig_visual_depth d pcur of
                     None \<Rightarrow> ([], [])
                   | Some visualdepth \<Rightarrow>
                       let (ra_ok, ra_val) = glXGetFBConfigAttrib d pcur GLX_BIND_TO_TEXTURE_RGBA_EXT s_val;
                           rgba = (32 \<le>s bufsz \<and> depth_alpha \<noteq> 0 \<and> ra_ok \<and> ra_val \<noteq> 0);
                           (r_ok, r_val) = glXGetFBConfigAttrib d pcur GLX_BIND_TO_TEXTURE_RGB_EXT s_val;
                           rgb = (r_ok \<and> r_val \<noteq> 0);
                           (y_ok, y_val) = glXGetFBConfigAttrib d pcur GLX_Y_INVERTED_EXT s_val;
                           fbinfo = \<lparr>cfg = pcur, texture_fmt = 0, texture_tgts = tgts,
                                     y_inverted = (y_ok \<and> y_val \<noteq> 0)\<rparr>;
                           tgtdpt = bufsz - depth_alpha
                       in
                         ([],
                          (if tgtdpt = visualdepth \<and> tgtdpt <s 32 \<and> rgb
                           then [(tgtdpt, fbinfo\<lparr>texture_fmt := GLX_TEXTURE_FORMAT_RGB_EXT\<rparr>)]
                           else []) @
                          (if bufsz = visualdepth \<and> rgba
                           then [(bufsz, fbinfo\<lparr>texture_fmt := GLX_TEXTURE_FORMAT_RGBA_EXT\<rparr>)]
                           else []))))"

text \<open>The calls of \<open>glx_update_fbconfig_bydepth\<close> of one round, made in order.\<close>
fun glx_update_fbconfig_apply ::
  "session \<Rightarrow> glx_data \<Rightarrow> (cint \<times> glx_fbconfig_t) list \<Rightarrow> error + glx_data" where
  "glx_update_fbconfig_apply ps gd [] = Inr gd"
| "glx_update_fbconfig_apply ps gd ((d, fbinfo) # rest) =
     (case glx_update_fbconfig_bydepth ps gd d fbinfo of
        Inl e \<Rightarrow> Inl e
      | Inr gd' \<Rightarrow> glx_update_fbconfig_apply ps gd' rest)"

text \<open>One round of the loop.\<close>
definition glx_update_fbconfig_round ::
  "session \<Rightarrow> glx_data \<Rightarrow> GLXFBConfig \<Rightarrow> error + (call list \<times> glx_data)" where
  "glx_update_fbconfig_round ps gd pcur =
     (case glx_update_fbconfig_apply ps gd (snd (glx_update_fbconfig_offers ps pcur)) of
        Inl e \<Rightarrow> Inl e
      | Inr gd' \<Rightarrow> Inr (fst (glx_update_fbconfig_offers ps pcur), gd'))"

text \<open>The loop over the configs \<open>glXGetFBConfigs\<close> returned.\<close>
fun glx_update_fbconfig_loop ::
  "session \<Rightarrow> glx_data \<Rightarrow> GLXFBConfig list \<Rightarrow> error + (call list \<times> glx_data)" where
  "glx_update_fbconfig_loop ps gd [] = Inr ([], gd)"
| "glx_update_fbconfig_loop ps gd (pcur # rest) =
     (case glx_update_fbconfig_round ps gd pcur of
        Inl e \<Rightarrow> Inl e
      | Inr (cs, gd') \<Rightarrow>
          (case glx_update_fbconfig_loop ps gd' rest of
             Inl e \<Rightarrow> Inl e
           | Inr (cs', gd'') \<Rightarrow> Inr (cs @ cs', gd'')))"

text \<open>
  The sanity checks that end \<open>glx_update_fbconfig\<close>, on the table the loop
  left: the function's return value and what it logs.
\<close>
definition glx_update_fbconfig_checks ::
  "session \<Rightarrow> glx_data \<Rightarrow> error + (call list \<times> bool)" where
  "glx_update_fbconfig_checks ps gd =
     (case fbconfigs_get gd (depth ps) of
        Inl e \<Rightarrow> Inl e
      | Inr None \<Rightarrow> Inr ([LogError ''No FBConfig found for default depth %d.''], False)
      | Inr (Some c) \<Rightarrow>
          (case fbconfigs_get gd 32 of
             Inl e \<Rightarrow> Inl e
           | Inr None \<Rightarrow>
               Inr ([LogError ''No FBConfig found for depth 32. compton may not work correctly''], True)
           | Inr (Some c32) \<Rightarrow> Inr ([], True)))"

text \<open>\<open>glx_update_fbconfig\<close>: the log, the table and the return value.\<close>
definition glx_update_fbconfig ::
  "glx_data \<Rightarrow> session \<Rightarrow> error + (call list \<times> glx_data \<times> bool)" where
  "glx_update_fbconfig gd ps =
     (case glx_update_fbconfig_loop ps gd (screen_fbconfigs (dpy ps)) of
        Inl e \<Rightarrow> Inl e
      | Inr (cs, gd') \<Rightarrow>
          (case glx_update_fbconfig_checks ps gd' of
             Inl e \<Rightarrow> Inl e
           | Inr (cs', ok) \<Rightarrow> Inr (cs @ cs', gd', ok)))"

subsection \<open>Window bindings\<close>

text \<open>\<open>glx_release_pixmap\<close>: the calls made and the binding as it is left.\<close>
definition glx_release_pixmap :: "glx_data \<Rightarrow> display \<Rightarrow> glx_win_data \<Rightarrow> call list \<times> glx_win_data" where
  "glx_release_pixmap gd d wd =
     ((if glpixmap wd \<noteq> 0 \<and> texture (wd_texture wd) \<noteq> 0
       then [GlBindTexture (target (wd_texture wd)) (texture (wd_texture wd)),
             GlXReleaseTexImage (glpixmap wd) GLX_FRONT_LEFT_EXT,
             GlBindTexture (target (wd_texture wd)) 0]
       else []) @
      (if glpixmap wd \<noteq> 0 then [GlXDestroyPixmap (glpixmap wd)] else []) @
      [GlCheckErr],
      (if glpixmap wd \<noteq> 0 then wd\<lparr>glpixmap := 0\<rparr> else wd))"

text \<open>\<open>glx_release_win\<close>: the binding is freed, so only the calls remain.\<close>
definition glx_release_win :: "glx_data \<Rightarrow> session \<Rightarrow> win \<Rightarrow> glx_win_data \<Rightarrow> call list" where
  "glx_release_win gd ps w wd =
     (let (cs, wd') = glx_release_pixmap gd (dpy ps) wd
      in cs @ [GlDeleteTextures (texture (wd_texture wd')), Free_win_data])"

text \<open>\<open>free_win_res_glx\<close>: its three statements are commented out.\<close>
definition free_win_res_glx :: "session \<Rightarrow> win \<Rightarrow> call list" where
  "free_win_res_glx ps w = []"

text \<open>The code after the label \<open>err\<close> of \<open>glx_prepare_win\<close>.\<close>
definition glx_prepare_win_err :: "win \<Rightarrow> glx_win_data \<Rightarrow> call list" where
  "glx_prepare_win_err w wd =
     (if pixmap wd \<noteq> 0 \<and> pixmap wd \<noteq> id w then [XcbFreePixmap (pixmap wd)] else []) @
     (if glpixmap wd \<noteq> 0 then [GlXDestroyPixmap (glpixmap wd)] else []) @
     [Free_win_data]"

text \<open>The choice of the texture target in \<open>glx_prepare_win\<close>.\<close>
definition choose_tex_tgt :: "glx_data \<Rightarrow> glx_fbconfig_t \<Rightarrow> cint" where
  "choose_tex_tgt gd pcfg =
     (if (GLX_TEXTURE_2D_BIT_EXT AND texture_tgts pcfg) \<noteq> 0 \<and> non_power_of_two_texture gd
      then GLX_TEXTURE_2D_EXT
      else if (GLX_TEXTURE_RECTANGLE_BIT_EXT AND texture_tgts pcfg) \<noteq> 0
      then GLX_TEXTURE_RECTANGLE_EXT
      else if (GLX_TEXTURE_2D_BIT_EXT AND texture_tgts pcfg) = 0
      then GLX_TEXTURE_RECTANGLE_EXT
      else GLX_TEXTURE_2D_EXT)"

text \<open>
  \<open>glx_prepare_win\<close>: the calls made and the binding returned (\<open>None\<close>: the
  null pointer, also for \<open>return false\<close>). \<open>w->g.depth\<close> is promoted to \<open>int\<close>
  for the comparison and the index. \<open>ccalloc\<close> gives a zeroed binding.
\<close>
definition glx_prepare_win ::
  "glx_data \<Rightarrow> session \<Rightarrow> win \<Rightarrow> error + (call list \<times> glx_win_data option)" where
  "glx_prepare_win gd ps w =
     (if OPENGL_MAX_DEPTH <s ucast (g_depth w)
      then Inr ([LogError ''Requested depth %d higher than max possible depth %d.''], None)
      else
        (case fbconfigs_get gd (ucast (g_depth w)) of
           Inl e \<Rightarrow> Inl e
         | Inr None \<Rightarrow> Inr ([LogError ''Couldn't find FBConfig with requested depth %d''], None)
         | Inr (Some pcfg) \<Rightarrow>
             let tex_tgt = choose_tex_tgt gd pcfg;
                 attrs = [GLX_TEXTURE_FORMAT_EXT, texture_fmt pcfg, GLX_TEXTURE_TARGET_EXT, tex_tgt, 0];
                 tgt = (if GLX_TEXTURE_2D_EXT = tex_tgt then GL_TEXTURE_2D else GL_TEXTURE_RECTANGLE);
                 wd0 = \<lparr>wd_texture = \<lparr>texture = 0, target = tgt, width = 0, height = 0,
                                      tex_y_inverted = y_inverted pcfg\<rparr>,
                        glpixmap = 0, pixmap = 0\<rparr>;
                 cs1 = (if has_name_pixmap ps
                        then [XcbGenerateId (generate_id (dpy ps)),
                              XcbCompositeNameWindowPixmap (id w) (generate_id (dpy ps))]
                        else []);
                 wd1 = wd0\<lparr>pixmap := (if has_name_pixmap ps then generate_id (dpy ps) else id w)\<rparr>
             in
               if pixmap wd1 = 0
               then Inr (cs1 @ [LogError ''Failed to get pixmap for window %#010x''] @
                         glx_prepare_win_err w wd1, None)
               else
                 let wd2 = wd1\<lparr>glpixmap := create_glx_pixmap (dpy ps) (cfg pcfg) (pixmap wd1)\<rparr>;
                     cs2 = cs1 @ [GlXCreatePixmap (cfg pcfg) (pixmap wd1) attrs (glpixmap wd2)]
                 in
                   if glpixmap wd2 = 0
                   then Inr (cs2 @ [LogError ''Failed to create glpixmap for window %#010x''] @
                             glx_prepare_win_err w wd2, None)
                   else
                     let tex = gen_texture (dpy ps);
                         cs3 = cs2 @ [GlGenTextures tex]
                     in
                       if tex = 0
                       then Inr (cs3 @ [LogError ''Failed to generate texture for window %#010x''] @
                                 glx_prepare_win_err w wd2, None)
                       else
                         Inr (cs3 @
                              [GlBindTexture tgt tex,
                               GlTexParameteri tgt GL_TEXTURE_MIN_FILTER GL_NEAREST,
                               GlTexParameteri tgt GL_TEXTURE_MAG_FILTER GL_NEAREST,
                               GlTexParameteri tgt GL_TEXTURE_WRAP_S GL_CLAMP_TO_EDGE,
                               GlTexParameteri tgt GL_TEXTURE_WRAP_T GL_CLAMP_TO_EDGE,
                               GlBindTexture tgt 0],
                              Some (wd2\<lparr>wd_texture := (wd_texture wd2)
                                      \<lparr>texture := tex, width := widthb w, height := heightb w\<rparr>\<rparr>))))"

text \<open>
  The bridge objects and textures a sequence of calls has created (a null
  handle is no object) and the ones it has destroyed.
\<close>
fun created_glpixmaps :: "call list \<Rightarrow> xid list" where
  "created_glpixmaps [] = []"
| "created_glpixmaps (GlXCreatePixmap c p attrs g # cs) =
     (if g \<noteq> 0 then g # created_glpixmaps cs else created_glpixmaps cs)"
| "created_glpixmaps (c # cs) = created_glpixmaps cs"

fun destroyed_glpixmaps :: "call list \<Rightarrow> xid list" where
  "destroyed_glpixmaps [] = []"
| "destroyed_glpixmaps (GlXDestroyPixmap g # cs) = g # destroyed_glpixmaps cs"
| "destroyed_glpixmaps (c # cs) = destroyed_glpixmaps cs"

fun created_textures :: "call list \<Rightarrow> GLuint list" where
  "created_textures [] = []"
| "created_textures (GlGenTextures t # cs) =
     (if t \<noteq> 0 then t # created_textures cs else created_textures cs)"
| "created_textures (c # cs) = created_textures cs"

fun deleted_textures :: "call list \<Rightarrow> GLuint list" where
  "deleted_textures [] = []"
| "deleted_textures (GlDeleteTextures t # cs) = t # deleted_textures cs"
| "deleted_textures (c # cs) = deleted_textures cs"

subsection \<open>Teardown\<close>

text \<open>
  The loop of \<open>glx_deinit\<close> that frees the table, over the indices it
  visits: \<open>free(gd->fbconfigs[i])\<close>, then the entry is set to null.
\<close>
fun glx_deinit_fbconfigs :: "glx_data \<Rightarrow> nat list \<Rightarrow> error + (call list \<times> glx_data)" where
  "glx_deinit_fbconfigs gd [] = Inr ([], gd)"
| "glx_deinit_fbconfigs gd (i # rest) =
     (case fbconfigs_get gd (of_nat i) of
        Inl e \<Rightarrow> Inl e
      | Inr p \<Rightarrow>
          (case fbconfigs_set gd (of_nat i) None of
             Inl e \<Rightarrow> Inl e
           | Inr gd' \<Rightarrow>
               (case glx_deinit_fbconfigs gd' rest of
                  Inl e \<Rightarrow> Inl e
                | Inr (cs, gd'') \<Rightarrow> Inr (Free_fbconfig i p # cs, gd''))))"

text \<open>
  \<open>glx_deinit\<close>: the calls made; \<open>gd\<close> itself is freed at the end. The
  first loop visits every window of \<open>ps->list\<close>, the second every blur shader
  of the array, the third the indices \<open>0 .. OPENGL_MAX_DEPTH\<close>.
\<close>
definition glx_deinit :: "glx_data \<Rightarrow> session \<Rightarrow> error + call list" where
  "glx_deinit gd ps =
     (case glx_deinit_fbconfigs gd [0 ..< Suc (unat OPENGL_MAX_DEPTH)] of
        Inl e \<Rightarrow> Inl e
      | Inr (cs, gd') \<Rightarrow>
          Inr (concat (map (free_win_res_glx ps) (win_list ps)) @
               map GlFreeBlurShader [0 ..< length (blur_shader gd)] @
               [GlFreeProgMain, GlCheckErr] @
               cs @
               (if ctx gd' \<noteq> 0 then [GlXDestroyContext (ctx gd')] else []) @
               [Free_glx_data]))"

subsection \<open>Presenting and composing\<close>

text \<open>
  Modelled from the spec: \<open>get_tgt_window\<close> is defined in common.h, which is
  not among the sources. The spec has the overlay drawable if one exists, else
  the root drawable, as \<open>glx_present\<close> computes it in place.
\<close>
definition get_tgt_window :: "session \<Rightarrow> xid" where
  "get_tgt_window ps = (if overlay ps \<noteq> 0 then overlay ps else root ps)"

text \<open>
  \<open>glx_buffer_age\<close>. \<open>val\<close> is declared without a value: if
  \<open>glXQueryDrawable\<close> does not write it, the function reads an unwritten
  variable. The cast to \<open>int\<close> keeps the 32 bits.
\<close>
definition glx_buffer_age :: "glx_data \<Rightarrow> session \<Rightarrow> error + cint" where
  "glx_buffer_age gd ps =
     (if glx_swap_method ps = SWAPM_BUFFER_AGE
      then (case back_buffer_age (dpy ps) (get_tgt_window ps) of
              None \<Rightarrow> Inl UninitialisedRead
            | Some val \<Rightarrow> Inr (if val \<noteq> 0 then val else - 1))
      else Inr (- 1))"

text \<open>The body of the loop of \<open>glx_compose\<close> over the rectangles.\<close>
definition flip_rect :: "session \<Rightarrow> box \<Rightarrow> box" where
  "flip_rect ps r = (let tmp = y1 r in r\<lparr>y1 := root_height ps - y2 r, y2 := root_height ps - tmp\<rparr>)"

text \<open>
  \<open>glx_compose\<close>: the region is copied, the rectangles of the copy are
  flipped in place, and the copy is handed to \<open>gl_compose\<close>; the copy is
  released after the call.
\<close>
definition glx_compose ::
  "glx_data \<Rightarrow> session \<Rightarrow> win \<Rightarrow> glx_win_data \<Rightarrow> cint \<Rightarrow> cint \<Rightarrow> region_t \<Rightarrow> call list" where
  "glx_compose gd ps w wd dst_x dst_y region =
     (let region_yflipped = map (flip_rect ps) region
      in [GlCompose \<lparr>arg_ptex = wd_texture wd, arg_x = 0, arg_y = 0, arg_dx = dst_x,
                     arg_dy = root_height ps - dst_y - heightb w,
                     arg_width = widthb w, arg_height = heightb w, arg_z = 0,
                     arg_opacity = 1, arg_argb = True, arg_neg = False,
                     arg_reg_tgt = region_yflipped\<rparr>])"

subsection \<open>Notions used to state the properties\<close>

text \<open>The driver reports the attribute, with a value other than 0.\<close>
definition reports :: "display \<Rightarrow> GLXFBConfig \<Rightarrow> glx_attrib \<Rightarrow> bool" where
  "reports d c a = (case fbconfig_attrib d c a of None \<Rightarrow> False | Some v \<Rightarrow> v \<noteq> 0)"

text \<open>
  The rounds of the loop of \<open>glx_update_fbconfig\<close> that are not left by
  \<open>continue\<close>: the sample count is not above 1 (or not reported), buffer
  size, alpha size and texture targets are reported, and the config has a
  visual.
\<close>
definition not_skipped :: "display \<Rightarrow> GLXFBConfig \<Rightarrow> bool" where
  "not_skipped d c =
     ((case fbconfig_attrib d c GLX_SAMPLES of None \<Rightarrow> True | Some v \<Rightarrow> v \<le>s 1) \<and>
      fbconfig_attrib d c GLX_BUFFER_SIZE \<noteq> None \<and>
      fbconfig_attrib d c GLX_ALPHA_SIZE \<noteq> None \<and>
      fbconfig_attrib d c GLX_BIND_TO_TEXTURE_TARGETS_EXT \<noteq> None \<and>
      fbconfig_visual_depth d c \<noteq> None)"

text \<open>
  The spec's condition for RGBA binding, in its words: \<open>bufferSize\<close> equals
  the visual depth and the driver reports RGBA-bind support with
  \<open>bufferSize >= 32\<close>.
\<close>
definition spec_qualifies_rgba :: "display \<Rightarrow> GLXFBConfig \<Rightarrow> bool" where
  "spec_qualifies_rgba d c =
     (case (fbconfig_attrib d c GLX_BUFFER_SIZE, fbconfig_visual_depth d c) of
        (Some bufsz, Some vd) \<Rightarrow>
           bufsz = vd \<and> reports d c GLX_BIND_TO_TEXTURE_RGBA_EXT \<and> 32 \<le>s bufsz
      | _ \<Rightarrow> False)"

text \<open>\<open>fbinfo\<close> as the loop hands it over for RGBA binding.\<close>
definition rgba_fbinfo :: "display \<Rightarrow> GLXFBConfig \<Rightarrow> glx_fbconfig_t" where
  "rgba_fbinfo d c =
     \<lparr>cfg = c, texture_fmt = GLX_TEXTURE_FORMAT_RGBA_EXT,
      texture_tgts = (case fbconfig_attrib d c GLX_BIND_TO_TEXTURE_TARGETS_EXT of
                        None \<Rightarrow> 0 | Some t \<Rightarrow> t),
      y_inverted = reports d c GLX_Y_INVERTED_EXT\<rparr>"

text \<open>The native pixmaps a sequence of calls has freed.\<close>
fun freed_pixmaps :: "call list \<Rightarrow> xid list" where
  "freed_pixmaps [] = []"
| "freed_pixmaps (XcbFreePixmap p # cs) = p # freed_pixmaps cs"
| "freed_pixmaps (c # cs) = freed_pixmaps cs"

subsection \<open>Example inputs\<close>

text \<open>
  A driver with six configs: 1 and 2 have 10-bit red on a depth-30 visual;
  3 and 4 are 32-bit RGBA configs with 8-bit red, 4 with an 8-bit stencil;
  5 has a 32-bit buffer without alpha on a depth-32 visual; 6 is a 24-bit RGB
  config.
\<close>
definition example_attribs :: "GLXFBConfig \<Rightarrow> glx_attrib \<Rightarrow> cint option" where
  "example_attribs c a =
     (case a of
        GLX_RED_SIZE \<Rightarrow> Some (if c = 1 \<or> c = 2 then 10 else 8)
      | GLX_BUFFER_SIZE \<Rightarrow> Some (if c = 6 then 24 else 32)
      | GLX_ALPHA_SIZE \<Rightarrow> Some (if c = 1 \<or> c = 2 then 2 else if c = 5 \<or> c = 6 then 0 else 8)
      | GLX_BIND_TO_TEXTURE_RGBA_EXT \<Rightarrow> Some (if c = 6 then 0 else 1)
      | GLX_BIND_TO_TEXTURE_RGB_EXT \<Rightarrow> Some 1
      | GLX_DOUBLEBUFFER \<Rightarrow> Some 1
      | GLX_STENCIL_SIZE \<Rightarrow> Some (if c = 4 then 8 else 0)
      | GLX_DEPTH_SIZE \<Rightarrow> Some 0
      | GLX_BIND_TO_MIPMAP_TEXTURE_EXT \<Rightarrow> Some 0
      | GLX_SAMPLES \<Rightarrow> Some 0
      | GLX_BIND_TO_TEXTURE_TARGETS_EXT \<Rightarrow> Some 6
      | GLX_Y_INVERTED_EXT \<Rightarrow> Some 1)"

definition example_dpy :: display where
  "example_dpy =
     \<lparr>fbconfig_attrib = example_attribs,
      fbconfig_visual_depth = (\<lambda>c. Some (if c = 1 \<or> c = 2 then 30 else if c = 6 then 24 else 32)),
      screen_fbconfigs = [1, 2, 3, 4, 5, 6],
      back_buffer_age = (\<lambda>d. Some 3),
      generate_id = 0x400001,
      create_glx_pixmap = (\<lambda>c p. 0x600001),
      gen_texture = 9\<rparr>"

definition example_fbc :: "GLXFBConfig \<Rightarrow> glx_fbconfig_t" where
  "example_fbc c = \<lparr>cfg = c, texture_fmt = GLX_TEXTURE_FORMAT_RGBA_EXT, texture_tgts = 6,
                    y_inverted = True\<rparr>"

text \<open>A binding as \<open>glx_prepare_win\<close> returns it, over a pixmap named for the window.\<close>
definition example_wd :: glx_win_data where
  "example_wd =
     \<lparr>wd_texture = \<lparr>texture = 9, target = GL_TEXTURE_2D, width = 10, height = 20,
                     tex_y_inverted = False\<rparr>,
      glpixmap = 0x600001, pixmap = 0x400001\<rparr>"

definition example_win :: win where
  "example_win = \<lparr>id = 0x200003, g_depth = 32, widthb = 10, heightb = 20,
                   win_data = Some example_wd\<rparr>"

definition example_ps :: session where
  "example_ps =
     \<lparr>dpy = example_dpy, depth = 24, root_height = 100, root = 0x1A0, overlay = 0,
      has_name_pixmap = True, glx_swap_method = SWAPM_BUFFER_AGE, win_list = [example_win]\<rparr>"

text \<open>The table with every entry null, and with config 3 stored for depth 32.\<close>
definition example_gd_empty :: glx_data where
  "example_gd_empty =
     \<lparr>ctx = 1, non_power_of_two_texture = True, blur_shader = [(), ()],
      fbconfigs = replicate 33 None\<rparr>"

definition example_gd :: glx_data where
  "example_gd = example_gd_empty\<lparr>fbconfigs := (replicate 33 None)[32 := Some (example_fbc 3)]\<rparr>"

text \<open>
  The same session on a screen that has only the 24-bit RGB config 6, on one
  that has only the RGBA config 3, and the table after the loop on the former.
\<close>
definition example_ps_rgb_only :: session where
  "example_ps_rgb_only = example_ps\<lparr>dpy := example_dpy\<lparr>screen_fbconfigs := [6]\<rparr>\<rparr>"

definition example_ps_rgba_only :: session where
  "example_ps_rgba_only = example_ps\<lparr>dpy := example_dpy\<lparr>screen_fbconfigs := [3]\<rparr>\<rparr>"

definition example_gd_rgb :: glx_data where
  "example_gd_rgb =
     example_gd_empty\<lparr>fbconfigs := (replicate 33 None)
       [24 := Some \<lparr>cfg = 6, texture_fmt = GLX_TEXTURE_FORMAT_RGB_EXT, texture_tgts = 6,
                     y_inverted = True\<rparr>]\<rparr>"

text \<open>The session with a driver that fails to create the bridge object.\<close>
definition example_ps_no_bridge :: session where
  "example_ps_no_bridge = example_ps\<lparr>dpy := example_dpy\<lparr>create_glx_pixmap := (\<lambda>c p. 0)\<rparr>\<rparr>"

text \<open>
  The calls of \<open>glx_deinit\<close> on \<open>example_gd\<close>: two blur shaders, the main
  program, the 33 table entries, the context, the structure.
\<close>
definition example_deinit_calls :: "call list" where
  "example_deinit_calls =
     [GlFreeBlurShader 0, GlFreeBlurShader 1, GlFreeProgMain, GlCheckErr] @
     map (\<lambda>i. Free_fbconfig i None) [0 ..< 32] @
     [Free_fbconfig 32 (Some (example_fbc 3)), GlXDestroyContext 1, Free_glx_data]"

text \<open>The session with another swap method, and with a driver reporting age 0.\<close>
definition example_ps_copy :: session where
  "example_ps_copy = example_ps\<lparr>glx_swap_method := SWAPM_COPY\<rparr>"

definition example_ps_age0 :: session where
  "example_ps_age0 = example_ps\<lparr>dpy := example_dpy\<lparr>back_buffer_age := (\<lambda>d. Some 0)\<rparr>\<rparr>"

section \<open>Properties\<close>

subsection \<open>Auxiliary facts\<close>

lemma cmpattr_flip:
  "glx_cmp_fbconfig_cmpattr ps b a attr = - glx_cmp_fbconfig_cmpattr ps a b attr"
  by (simp add: glx_cmp_fbconfig_cmpattr_def Let_def)

lemma cmp_not_oob: "glx_cmp_fbconfig ps x y \<noteq> Inl OutOfBounds"
  by (simp add: glx_cmp_fbconfig_def Let_def split: option.splits)

lemma cmp_both8:
  assumes "fbconfig_attrib (dpy ps) (cfg a) GLX_RED_SIZE = Some 8"
      and "fbconfig_attrib (dpy ps) (cfg b) GLX_RED_SIZE = Some 8"
  shows "\<exists>r. glx_cmp_fbconfig ps (Some a) (Some b) = Inr r \<and>
             glx_cmp_fbconfig ps (Some b) (Some a) = Inr (- r)"
  using assms
  by (simp add: glx_cmp_fbconfig_def glXGetFBConfigAttrib_def Let_def cmpattr_flip [of ps b a])

lemma depth_in_range:
  "\<not> (d <s 0 \<or> OPENGL_MAX_DEPTH <s d) \<Longrightarrow> 0 \<le> sint d \<and> nat (sint d) < 33"
  by (auto simp: OPENGL_MAX_DEPTH_def word_sless_alt)

lemma example_red:
  "fbconfig_attrib (dpy example_ps) c GLX_RED_SIZE = Some (if c = 1 \<or> c = 2 then 10 else 8)"
  by (simp add: example_ps_def example_dpy_def example_attribs_def)

lemma fmt_rgb_neq_rgba: "GLX_TEXTURE_FORMAT_RGB_EXT \<noteq> GLX_TEXTURE_FORMAT_RGBA_EXT"
  by (simp add: GLX_TEXTURE_FORMAT_RGB_EXT_def GLX_TEXTURE_FORMAT_RGBA_EXT_def)

lemma offers_qualified:
  assumes "not_skipped (dpy ps) c"
      and "fbconfig_attrib (dpy ps) c GLX_BUFFER_SIZE = Some bufsz"
      and "fbconfig_attrib (dpy ps) c GLX_ALPHA_SIZE = Some alpha"
      and "spec_qualifies_rgba (dpy ps) c" and "alpha \<noteq> 0"
  shows "glx_update_fbconfig_offers ps c = ([], [(bufsz, rgba_fbinfo (dpy ps) c)])"
  using assms
  by (auto simp: glx_update_fbconfig_offers_def not_skipped_def spec_qualifies_rgba_def
      rgba_fbinfo_def reports_def glXGetFBConfigAttrib_def Let_def word_sle_eq word_sless_alt
      split: option.splits)

lemma bydepth_length:
  "glx_update_fbconfig_bydepth ps gd d c = Inr gd' \<Longrightarrow>
   length (fbconfigs gd') = length (fbconfigs gd)"
  by (auto simp: glx_update_fbconfig_bydepth_def fbconfigs_set_def
      split: if_splits sum.splits)

lemma apply_length:
  "glx_update_fbconfig_apply ps gd offs = Inr gd' \<Longrightarrow>
   length (fbconfigs gd') = length (fbconfigs gd)"
proof (induction offs arbitrary: gd)
  case Nil
  then show ?case by simp
next
  case (Cons off offs)
  obtain d c where off: "off = (d, c)" by (cases off)
  from Cons.prems off obtain gd1 where
    s1: "glx_update_fbconfig_bydepth ps gd d c = Inr gd1" and
    s2: "glx_update_fbconfig_apply ps gd1 offs = Inr gd'"
    by (auto split: sum.splits)
  show ?case using Cons.IH [OF s2] bydepth_length [OF s1] by simp
qed

lemma round_length:
  "glx_update_fbconfig_round ps gd c = Inr (cs, gd') \<Longrightarrow>
   length (fbconfigs gd') = length (fbconfigs gd)"
  by (auto simp: glx_update_fbconfig_round_def split: sum.splits dest: apply_length)

lemma loop_length:
  "glx_update_fbconfig_loop ps gd cfgs = Inr (cs, gd') \<Longrightarrow>
   length (fbconfigs gd') = length (fbconfigs gd)"
proof (induction cfgs arbitrary: gd cs)
  case Nil
  then show ?case by simp
next
  case (Cons c cfgs)
  from Cons.prems obtain cs1 gd1 cs2 where
    s1: "glx_update_fbconfig_round ps gd c = Inr (cs1, gd1)" and
    s2: "glx_update_fbconfig_loop ps gd1 cfgs = Inr (cs2, gd')"
    by (auto split: sum.splits prod.splits)
  show ?case using Cons.IH [OF s2] round_length [OF s1] by simp
qed

lemma example_not_skipped: "not_skipped (dpy example_ps) c"
  by (simp add: not_skipped_def example_ps_def example_dpy_def example_attribs_def word_sle_eq)

lemma example_attrib:
  "fbconfig_attrib (dpy example_ps) c a = example_attribs c a"
  by (simp add: example_ps_def example_dpy_def)

lemma example_qualifies:
  "spec_qualifies_rgba (dpy example_ps) c \<longleftrightarrow> c \<noteq> 1 \<and> c \<noteq> 2 \<and> c \<noteq> 6"
  by (simp add: spec_qualifies_rgba_def reports_def example_ps_def example_dpy_def
      example_attribs_def word_sle_eq)

lemma example_rgba_fbinfo: "rgba_fbinfo (dpy example_ps) c = example_fbc c"
  by (simp add: rgba_fbinfo_def reports_def example_fbc_def example_ps_def example_dpy_def
      example_attribs_def)

lemma sint_of_nat_small: "i < 2 ^ 31 \<Longrightarrow> sint (of_nat i :: cint) = int i"
  by (simp add: signed_of_nat signed_take_bit_int_eq_self)

lemma get_of_nat:
  "i < length (fbconfigs gd) \<Longrightarrow> i < 2 ^ 31 \<Longrightarrow>
   fbconfigs_get gd (of_nat i) = Inr (fbconfigs gd ! i)"
  by (simp add: fbconfigs_get_def sint_of_nat_small)

lemma set_of_nat:
  "i < length (fbconfigs gd) \<Longrightarrow> i < 2 ^ 31 \<Longrightarrow>
   fbconfigs_set gd (of_nat i) v = Inr (gd\<lparr>fbconfigs := (fbconfigs gd)[i := v]\<rparr>)"
  by (simp add: fbconfigs_set_def sint_of_nat_small)

lemma deinit_fbconfigs_calls:
  "distinct idxs \<Longrightarrow> \<forall>i\<in>set idxs. i < length (fbconfigs gd) \<and> i < 2 ^ 31 \<Longrightarrow>
   \<exists>gd'. glx_deinit_fbconfigs gd idxs =
            Inr (map (\<lambda>i. Free_fbconfig i (fbconfigs gd ! i)) idxs, gd') \<and> ctx gd' = ctx gd"
proof (induction idxs arbitrary: gd)
  case Nil
  then show ?case by simp
next
  case (Cons i idxs)
  let ?gd1 = "gd\<lparr>fbconfigs := (fbconfigs gd)[i := None]\<rparr>"
  have d: "distinct idxs" and ni: "i \<notin> set idxs" using Cons.prems(1) by auto
  have b: "\<forall>j\<in>set idxs. j < length (fbconfigs ?gd1) \<and> j < 2 ^ 31" using Cons.prems(2) by simp
  obtain gd' where r: "glx_deinit_fbconfigs ?gd1 idxs =
      Inr (map (\<lambda>j. Free_fbconfig j (fbconfigs ?gd1 ! j)) idxs, gd')" and c: "ctx gd' = ctx ?gd1"
    using Cons.IH [OF d b] by blast
  have same: "map (\<lambda>j. Free_fbconfig j (fbconfigs ?gd1 ! j)) idxs =
              map (\<lambda>j. Free_fbconfig j (fbconfigs gd ! j)) idxs"
  proof (rule map_cong [OF refl])
    fix j assume "j \<in> set idxs"
    then have "j \<noteq> i" using ni by auto
    then show "Free_fbconfig j (fbconfigs ?gd1 ! j) = Free_fbconfig j (fbconfigs gd ! j)"
      by simp
  qed
  have i: "i < length (fbconfigs gd)" "i < 2 ^ 31" using Cons.prems(2) by auto
  show ?case using r c same i by (simp add: get_of_nat set_of_nat)
qed

lemma sint_ucast_depth: "sint (ucast (x :: 8 word) :: cint) = uint x"
proof -
  have "uint x < 2 ^ 8" using uint_bounded [of x] by simp
  then have "uint x < 2 ^ 31" by simp
  moreover have "- (2 ^ 31) \<le> uint x" by (rule order_trans [of _ 0]) simp_all
  ultimately have "signed_take_bit 31 (uint x) = uint x"
    by (rule signed_take_bit_int_eq_self [rotated])
  then show ?thesis by (simp add: signed_ucast_eq)
qed

lemma created_glpixmaps_append [simp]:
  "created_glpixmaps (xs @ ys) = created_glpixmaps xs @ created_glpixmaps ys"
  by (induction xs rule: created_glpixmaps.induct) simp_all

lemma destroyed_glpixmaps_append [simp]:
  "destroyed_glpixmaps (xs @ ys) = destroyed_glpixmaps xs @ destroyed_glpixmaps ys"
  by (induction xs rule: destroyed_glpixmaps.induct) simp_all

lemma created_textures_append [simp]:
  "created_textures (xs @ ys) = created_textures xs @ created_textures ys"
  by (induction xs rule: created_textures.induct) simp_all

lemma deleted_textures_append [simp]:
  "deleted_textures (xs @ ys) = deleted_textures xs @ deleted_textures ys"
  by (induction xs rule: deleted_textures.induct) simp_all

lemma freed_pixmaps_append [simp]:
  "freed_pixmaps (xs @ ys) = freed_pixmaps xs @ freed_pixmaps ys"
  by (induction xs rule: freed_pixmaps.induct) simp_all

lemma prepare_win_outcome:
  assumes "glx_prepare_win gd ps w = Inr (cs, r)"
  shows "case r of
           None \<Rightarrow> destroyed_glpixmaps cs = created_glpixmaps cs \<and> created_textures cs = []
         | Some wd \<Rightarrow>
             glpixmap wd \<noteq> 0 \<and> texture (wd_texture wd) \<noteq> 0 \<and>
             created_glpixmaps cs = [glpixmap wd] \<and> destroyed_glpixmaps cs = [] \<and>
             created_textures cs = [texture (wd_texture wd)] \<and> deleted_textures cs = []"
  using assms
  by (auto simp: glx_prepare_win_def glx_prepare_win_err_def Let_def
      split: if_splits sum.splits option.splits)

lemma prepare_win_returns:
  assumes "length (fbconfigs gd) = Suc (unat OPENGL_MAX_DEPTH)"
  shows "\<exists>cs r. glx_prepare_win gd ps w = Inr (cs, r)"
proof (cases "OPENGL_MAX_DEPTH <s (ucast (g_depth w) :: cint)")
  case True
  then show ?thesis by (simp add: glx_prepare_win_def)
next
  case False
  then have "uint (g_depth w) \<le> 32"
    by (simp add: OPENGL_MAX_DEPTH_def word_sless_alt sint_ucast_depth)
  then have "nat (uint (g_depth w)) < 33" by linarith
  then have "nat (sint (ucast (g_depth w) :: cint)) < length (fbconfigs gd)"
    using assms by (simp only: sint_ucast_depth) (simp add: OPENGL_MAX_DEPTH_def)
  moreover have "0 \<le> sint (ucast (g_depth w) :: cint)"
    by (simp only: sint_ucast_depth) simp
  ultimately obtain e where "fbconfigs_get gd (ucast (g_depth w)) = Inr e"
    by (simp add: fbconfigs_get_def)
  then show ?thesis using False
    by (cases e) (simp_all add: glx_prepare_win_def Let_def)
qed

lemma deinit_calls:
  assumes "length (fbconfigs gd) = Suc (unat OPENGL_MAX_DEPTH)"
  shows "glx_deinit gd ps =
     Inr (map GlFreeBlurShader [0 ..< length (blur_shader gd)] @
          [GlFreeProgMain, GlCheckErr] @
          map (\<lambda>i. Free_fbconfig i (fbconfigs gd ! i)) [0 ..< Suc (unat OPENGL_MAX_DEPTH)] @
          (if ctx gd \<noteq> 0 then [GlXDestroyContext (ctx gd)] else []) @
          [Free_glx_data])"
proof -
  have "\<forall>i\<in>set [0 ..< Suc (unat OPENGL_MAX_DEPTH)]. i < length (fbconfigs gd) \<and> i < 2 ^ 31"
    using assms by (simp add: OPENGL_MAX_DEPTH_def)
  then obtain gd' where "glx_deinit_fbconfigs gd [0 ..< Suc (unat OPENGL_MAX_DEPTH)] =
      Inr (map (\<lambda>i. Free_fbconfig i (fbconfigs gd ! i)) [0 ..< Suc (unat OPENGL_MAX_DEPTH)], gd')"
      and "ctx gd' = ctx gd"
    using deinit_fbconfigs_calls [of "[0 ..< Suc (unat OPENGL_MAX_DEPTH)]" gd] by auto
  then show ?thesis by (simp add: glx_deinit_def free_win_res_glx_def)
qed

lemma example_gd_len: "length (fbconfigs example_gd) = Suc (unat OPENGL_MAX_DEPTH)"
  by (simp add: example_gd_def example_gd_empty_def OPENGL_MAX_DEPTH_def)

lemma example_deinit: "glx_deinit example_gd example_ps = Inr example_deinit_calls"
proof -
  have u: "[0 ..< Suc (unat OPENGL_MAX_DEPTH)] = [0 ..< 32] @ [32]"
  proof -
    have "[0 ..< Suc 32] = [0 ..< 32] @ [32 :: nat]" by (rule upt_Suc_append) simp
    moreover have "unat OPENGL_MAX_DEPTH = 32" by (simp add: OPENGL_MAX_DEPTH_def)
    ultimately show ?thesis by (simp only:)
  qed
  have m: "map (\<lambda>i. Free_fbconfig i (fbconfigs example_gd ! i)) [0 ..< 32] =
        map (\<lambda>i. Free_fbconfig i None) [0 ..< 32]"
    by (rule map_cong [OF refl]) (simp add: example_gd_def example_gd_empty_def)
  have l: "fbconfigs example_gd ! 32 = Some (example_fbc 3)"
    by (simp add: example_gd_def example_gd_empty_def)
  have c: "ctx example_gd = 1" "blur_shader example_gd = [(), ()]"
    by (simp_all add: example_gd_def example_gd_empty_def)
  have b: "map GlFreeBlurShader [0 ..< length [(), ()]] = [GlFreeBlurShader 0, GlFreeBlurShader 1]"
    by (simp add: upt_rec)
  show ?thesis
    unfolding deinit_calls [OF example_gd_len, of example_ps] u example_deinit_calls_def
    by (simp only: map_append list.map m l c b) simp
qed

lemma release_win_frees_no_pixmap: "freed_pixmaps (glx_release_win gd ps w wd) = []"
  by (simp add: glx_release_win_def glx_release_pixmap_def)

lemma no_objects_in_frees:
  "deleted_textures (map (\<lambda>i. Free_fbconfig i (f i)) idxs) = [] \<and>
   destroyed_glpixmaps (map (\<lambda>i. Free_fbconfig i (f i)) idxs) = []"
  by (induction idxs) simp_all

subsection \<open>The ranking comparator\<close>

text \<open>
  C3, as the code has it: for two non-null configs whose red size the driver
  reports and of which at least one has 8 red bits, \<open>glx_cmp_fbconfig\<close>
  returns for \<open>(A, B)\<close> the negation of what it returns for \<open>(B, A)\<close>.
\<close>
theorem glx_cmp_fbconfig_antisym:
  assumes "fbconfig_attrib (dpy ps) (cfg a) GLX_RED_SIZE = Some ra"
      and "fbconfig_attrib (dpy ps) (cfg b) GLX_RED_SIZE = Some rb"
      and "ra = 8 \<or> rb = 8"
  shows "\<exists>r. glx_cmp_fbconfig ps (Some a) (Some b) = Inr r \<and>
             glx_cmp_fbconfig ps (Some b) (Some a) = Inr (- r)"
proof (cases "ra = 8 \<and> rb = 8")
  case True
  then show ?thesis using assms cmp_both8 by blast
next
  case False
  then show ?thesis using assms
    by (auto simp: glx_cmp_fbconfig_def glXGetFBConfigAttrib_def Let_def)
qed

theorem glx_cmp_fbconfig_antisym_witness:
  "fbconfig_attrib (dpy example_ps) (cfg (example_fbc 3)) GLX_RED_SIZE = Some 8 \<and>
   fbconfig_attrib (dpy example_ps) (cfg (example_fbc 4)) GLX_RED_SIZE = Some 8 \<and>
   (\<exists>r. glx_cmp_fbconfig example_ps (Some (example_fbc 3)) (Some (example_fbc 4)) = Inr r \<and>
        glx_cmp_fbconfig example_ps (Some (example_fbc 4)) (Some (example_fbc 3)) = Inr (- r))"
  using glx_cmp_fbconfig_antisym [of example_ps "example_fbc 3" 8 "example_fbc 4" 8]
  by (simp add: example_red example_fbc_def)

text \<open>
  C3 as stated fails: for two non-null configs that both have 10 red bits the
  comparator returns \<open>-1\<close> in either order.
\<close>
theorem glx_cmp_fbconfig_not_antisym:
  "glx_cmp_fbconfig example_ps (Some (example_fbc 1)) (Some (example_fbc 2)) = Inr (- 1) \<and>
   glx_cmp_fbconfig example_ps (Some (example_fbc 2)) (Some (example_fbc 1)) = Inr (- 1) \<and>
   (- 1 :: cint) \<noteq> - (- 1)"
  by (simp add: glx_cmp_fbconfig_def example_red example_fbc_def)

text \<open>
  C4: of two non-null configs of which exactly one has 8 red bits, the one
  without loses: \<open>glx_cmp_fbconfig\<close> returns a negative value when it is
  the first argument and a positive value when it is the second.
\<close>
theorem glx_cmp_fbconfig_red_size:
  assumes "fbconfig_attrib (dpy ps) (cfg a) GLX_RED_SIZE = Some ra"
      and "fbconfig_attrib (dpy ps) (cfg b) GLX_RED_SIZE = Some rb"
      and "(ra = 8) \<noteq> (rb = 8)"
  shows "(ra \<noteq> 8 \<longrightarrow> (\<exists>r. glx_cmp_fbconfig ps (Some a) (Some b) = Inr r \<and> sint r < 0)) \<and>
         (ra = 8 \<longrightarrow> (\<exists>r. glx_cmp_fbconfig ps (Some a) (Some b) = Inr r \<and> 0 < sint r))"
  using assms
  by (auto simp: glx_cmp_fbconfig_def glXGetFBConfigAttrib_def Let_def)

theorem glx_cmp_fbconfig_red_size_witness:
  "(\<exists>r. glx_cmp_fbconfig example_ps (Some (example_fbc 1)) (Some (example_fbc 3)) = Inr r \<and> sint r < 0) \<and>
   (\<exists>r. glx_cmp_fbconfig example_ps (Some (example_fbc 3)) (Some (example_fbc 1)) = Inr r \<and> 0 < sint r)"
  using glx_cmp_fbconfig_red_size [of example_ps "example_fbc 1" 10 "example_fbc 3" 8]
        glx_cmp_fbconfig_red_size [of example_ps "example_fbc 3" 8 "example_fbc 1" 10]
  by (simp add: example_red example_fbc_def)

subsection \<open>The per-depth update\<close>

text \<open>
  C10: for a depth below 0 or above \<open>OPENGL_MAX_DEPTH\<close>,
  \<open>glx_update_fbconfig_bydepth\<close> returns with the table as it was, whatever
  the table is (also for one in which every access would be out of bounds, so
  it makes none); and on the array of \<open>OPENGL_MAX_DEPTH + 1\<close> entries no
  call makes an access out of bounds, for any depth.
\<close>
theorem glx_update_fbconfig_bydepth_bounds:
  "(sint d < 0 \<or> sint OPENGL_MAX_DEPTH < sint d \<longrightarrow>
      glx_update_fbconfig_bydepth ps gd d pfbcfg = Inr gd) \<and>
   (length (fbconfigs gd) = Suc (unat OPENGL_MAX_DEPTH) \<longrightarrow>
      glx_update_fbconfig_bydepth ps gd d pfbcfg \<noteq> Inl OutOfBounds)"
  using depth_in_range [of d] cmp_not_oob
  by (auto simp: glx_update_fbconfig_bydepth_def fbconfigs_get_def fbconfigs_set_def
      OPENGL_MAX_DEPTH_def word_sless_alt split: sum.splits)

theorem glx_update_fbconfig_bydepth_bounds_witness:
  "glx_update_fbconfig_bydepth example_ps (example_gd\<lparr>fbconfigs := []\<rparr>) 33 (example_fbc 3) =
      Inr (example_gd\<lparr>fbconfigs := []\<rparr>) \<and>
   glx_update_fbconfig_bydepth example_ps example_gd (- 1) (example_fbc 3) = Inr example_gd \<and>
   length (fbconfigs example_gd) = Suc (unat OPENGL_MAX_DEPTH) \<and>
   glx_update_fbconfig_bydepth example_ps example_gd 32 (example_fbc 4) \<noteq> Inl OutOfBounds"
  using glx_update_fbconfig_bydepth_bounds [of 33 example_ps "example_gd\<lparr>fbconfigs := []\<rparr>" "example_fbc 3"]
        glx_update_fbconfig_bydepth_bounds [of "- 1" example_ps example_gd "example_fbc 3"]
        glx_update_fbconfig_bydepth_bounds [of 32 example_ps example_gd "example_fbc 4"]
  by (simp add: OPENGL_MAX_DEPTH_def example_gd_def example_gd_empty_def)

subsection \<open>Selection\<close>

text \<open>
  C5, as the code has it: a candidate that the loop does not skip is handed to
  the per-depth update as an RGBA config exactly when its buffer size equals
  the visual depth, the driver reports RGBA-bind support, the buffer size is at
  least 32 and the alpha size is not 0. It is then handed over once, under
  depth \<open>bufferSize\<close> with texture format RGBA, and this is the only update
  of the round. The update stores it when the depth is at most
  \<open>OPENGL_MAX_DEPTH\<close> and the comparator returns a negative value for the
  stored entry against it, and leaves the table as it is when the comparator
  returns another value.
\<close>
theorem glx_update_fbconfig_rgba:
  assumes "not_skipped (dpy ps) c"
      and "fbconfig_attrib (dpy ps) c GLX_BUFFER_SIZE = Some bufsz"
      and "fbconfig_attrib (dpy ps) c GLX_ALPHA_SIZE = Some alpha"
  shows "filter (\<lambda>off. texture_fmt (snd off) = GLX_TEXTURE_FORMAT_RGBA_EXT)
           (snd (glx_update_fbconfig_offers ps c)) =
         (if spec_qualifies_rgba (dpy ps) c \<and> alpha \<noteq> 0
          then [(bufsz, rgba_fbinfo (dpy ps) c)] else []) \<and>
         (spec_qualifies_rgba (dpy ps) c \<and> alpha \<noteq> 0 \<longrightarrow>
            glx_update_fbconfig_round ps gd c =
              (case glx_update_fbconfig_bydepth ps gd bufsz (rgba_fbinfo (dpy ps) c) of
                 Inl e \<Rightarrow> Inl e | Inr gd' \<Rightarrow> Inr ([], gd'))) \<and>
         (spec_qualifies_rgba (dpy ps) c \<and> alpha \<noteq> 0 \<and> bufsz \<le>s OPENGL_MAX_DEPTH \<and>
          length (fbconfigs gd) = Suc (unat OPENGL_MAX_DEPTH) \<and>
          glx_cmp_fbconfig ps (fbconfigs gd ! nat (sint bufsz)) (Some (rgba_fbinfo (dpy ps) c)) = Inr r \<longrightarrow>
            glx_update_fbconfig_round ps gd c =
              Inr ([], if r <s 0
                       then gd\<lparr>fbconfigs := (fbconfigs gd)[nat (sint bufsz) := Some (rgba_fbinfo (dpy ps) c)]\<rparr>
                       else gd))"
proof (intro conjI impI)
  show "filter (\<lambda>off. texture_fmt (snd off) = GLX_TEXTURE_FORMAT_RGBA_EXT)
           (snd (glx_update_fbconfig_offers ps c)) =
         (if spec_qualifies_rgba (dpy ps) c \<and> alpha \<noteq> 0
          then [(bufsz, rgba_fbinfo (dpy ps) c)] else [])"
    using assms fmt_rgb_neq_rgba
    by (auto simp: glx_update_fbconfig_offers_def not_skipped_def spec_qualifies_rgba_def
        rgba_fbinfo_def reports_def glXGetFBConfigAttrib_def Let_def word_sle_eq word_sless_alt
        split: option.splits)
next
  assume "spec_qualifies_rgba (dpy ps) c \<and> alpha \<noteq> 0"
  then have "glx_update_fbconfig_offers ps c = ([], [(bufsz, rgba_fbinfo (dpy ps) c)])"
    using offers_qualified assms by blast
  then show "glx_update_fbconfig_round ps gd c =
      (case glx_update_fbconfig_bydepth ps gd bufsz (rgba_fbinfo (dpy ps) c) of
         Inl e \<Rightarrow> Inl e | Inr gd' \<Rightarrow> Inr ([], gd'))"
    by (simp add: glx_update_fbconfig_round_def split: sum.splits)
next
  assume a: "spec_qualifies_rgba (dpy ps) c \<and> alpha \<noteq> 0 \<and> bufsz \<le>s OPENGL_MAX_DEPTH \<and>
          length (fbconfigs gd) = Suc (unat OPENGL_MAX_DEPTH) \<and>
          glx_cmp_fbconfig ps (fbconfigs gd ! nat (sint bufsz)) (Some (rgba_fbinfo (dpy ps) c)) = Inr r"
  then have o: "glx_update_fbconfig_offers ps c = ([], [(bufsz, rgba_fbinfo (dpy ps) c)])"
    using offers_qualified assms by blast
  have ge: "32 \<le>s bufsz"
    using a assms(2) by (auto simp: spec_qualifies_rgba_def split: option.splits)
  have rng: "\<not> (bufsz <s 0 \<or> OPENGL_MAX_DEPTH <s bufsz)"
    using a ge by (auto simp: word_sle_eq word_sless_alt)
  have idx: "0 \<le> sint bufsz" "nat (sint bufsz) < length (fbconfigs gd)"
    using depth_in_range [OF rng] a by (auto simp: OPENGL_MAX_DEPTH_def)
  show "glx_update_fbconfig_round ps gd c =
      Inr ([], if r <s 0
               then gd\<lparr>fbconfigs := (fbconfigs gd)[nat (sint bufsz) := Some (rgba_fbinfo (dpy ps) c)]\<rparr>
               else gd)"
    using o rng idx a
    by (simp add: glx_update_fbconfig_round_def glx_update_fbconfig_bydepth_def
        fbconfigs_get_def fbconfigs_set_def)
qed

theorem glx_update_fbconfig_rgba_witness:
  "not_skipped (dpy example_ps) 3 \<and>
   spec_qualifies_rgba (dpy example_ps) 3 \<and>
   filter (\<lambda>off. texture_fmt (snd off) = GLX_TEXTURE_FORMAT_RGBA_EXT)
      (snd (glx_update_fbconfig_offers example_ps 3)) = [(32, example_fbc 3)] \<and>
   glx_update_fbconfig_round example_ps example_gd_empty 3 = Inr ([], example_gd)"
proof -
  have h1: "not_skipped (dpy example_ps) 3" by (rule example_not_skipped)
  have h2: "fbconfig_attrib (dpy example_ps) 3 GLX_BUFFER_SIZE = Some 32"
    by (simp add: example_attrib example_attribs_def)
  have h3: "fbconfig_attrib (dpy example_ps) 3 GLX_ALPHA_SIZE = Some 8"
    by (simp add: example_attrib example_attribs_def)
  have q: "spec_qualifies_rgba (dpy example_ps) 3" by (simp add: example_qualifies)
  have c: "glx_cmp_fbconfig example_ps (fbconfigs example_gd_empty ! nat (sint (32 :: cint)))
             (Some (example_fbc 3)) = Inr (- 1)"
    by (simp add: glx_cmp_fbconfig_def example_gd_empty_def)
  note t = glx_update_fbconfig_rgba [OF h1 h2 h3, of example_gd_empty "- 1"]
  have f: "filter (\<lambda>off. texture_fmt (snd off) = GLX_TEXTURE_FORMAT_RGBA_EXT)
      (snd (glx_update_fbconfig_offers example_ps 3)) = [(32, example_fbc 3)]"
    using conjunct1 [OF t] q by (simp add: example_rgba_fbinfo)
  have len: "length (fbconfigs example_gd_empty) = Suc (unat OPENGL_MAX_DEPTH)"
    by (simp add: example_gd_empty_def OPENGL_MAX_DEPTH_def)
  have le: "(32 :: cint) \<le>s OPENGL_MAX_DEPTH"
    by (simp add: OPENGL_MAX_DEPTH_def)
  have "glx_update_fbconfig_round example_ps example_gd_empty 3 =
      Inr ([], if (- 1 :: cint) <s 0
               then example_gd_empty\<lparr>fbconfigs :=
                      (fbconfigs example_gd_empty)[nat (sint (32 :: cint)) :=
                         Some (rgba_fbinfo (dpy example_ps) 3)]\<rparr>
               else example_gd_empty)"
    using conjunct2 [OF conjunct2 [OF t]] q len le c
    by (simp add: example_rgba_fbinfo)
  then have r: "glx_update_fbconfig_round example_ps example_gd_empty 3 = Inr ([], example_gd)"
    by (simp add: example_rgba_fbinfo example_gd_def example_gd_empty_def)
  show ?thesis using h1 q f r by simp
qed

text \<open>
  C5 as stated fails in both halves. Config 5 (buffer size 32 equal to the
  visual depth, RGBA-bind support, no alpha bits) meets the stated condition
  and is not handed to the table at all. Config 4 meets it, and the code's,
  and is not registered: the table keeps config 3, which has fewer stencil
  bits.
\<close>
theorem glx_update_fbconfig_rgba_counterexample:
  "not_skipped (dpy example_ps) 5 \<and>
   spec_qualifies_rgba (dpy example_ps) 5 \<and>
   glx_update_fbconfig_offers example_ps 5 = ([], []) \<and>
   glx_update_fbconfig_round example_ps example_gd_empty 5 = Inr ([], example_gd_empty) \<and>
   not_skipped (dpy example_ps) 4 \<and>
   spec_qualifies_rgba (dpy example_ps) 4 \<and>
   glx_update_fbconfig_offers example_ps 4 = ([], [(32, example_fbc 4)]) \<and>
   glx_update_fbconfig_round example_ps example_gd 4 = Inr ([], example_gd)"
proof -
  have o5: "glx_update_fbconfig_offers example_ps 5 = ([], [])"
    by (simp add: glx_update_fbconfig_offers_def glXGetFBConfigAttrib_def Let_def
        example_ps_def example_dpy_def example_attribs_def word_sle_eq)
  have o4: "glx_update_fbconfig_offers example_ps 4 = ([], [(32, example_fbc 4)])"
    by (simp add: glx_update_fbconfig_offers_def glXGetFBConfigAttrib_def Let_def
        example_ps_def example_dpy_def example_attribs_def example_fbc_def word_sle_eq
        word_sless_alt)
  have c: "glx_cmp_fbconfig example_ps (Some (example_fbc 3)) (Some (example_fbc 4)) = Inr 8"
    by (simp add: glx_cmp_fbconfig_def glx_cmp_fbconfig_cmpattr_def glXGetFBConfigAttrib_def
        Let_def example_attrib example_attribs_def example_fbc_def)
  have r4: "glx_update_fbconfig_round example_ps example_gd 4 = Inr ([], example_gd)"
    using c
    by (simp add: glx_update_fbconfig_round_def o4 glx_update_fbconfig_bydepth_def
        fbconfigs_get_def example_gd_def example_gd_empty_def OPENGL_MAX_DEPTH_def
        word_sless_alt)
  show ?thesis
    using o5 o4 r4
    by (simp add: example_not_skipped example_qualifies glx_update_fbconfig_round_def)
qed

text \<open>
  C9: once the loop over the candidates has ended, with a default depth that
  is an index of the table, \<open>glx_update_fbconfig\<close> returns false exactly
  when the entry of the default depth is null; with that entry present and the
  entry of depth 32 null it logs an error and returns true.
\<close>
theorem glx_update_fbconfig_default_depth:
  assumes "length (fbconfigs gd) = Suc (unat OPENGL_MAX_DEPTH)"
      and "0 \<le> sint (depth ps)" and "sint (depth ps) \<le> sint OPENGL_MAX_DEPTH"
      and "glx_update_fbconfig_loop ps gd (screen_fbconfigs (dpy ps)) = Inr (cs, gd')"
  shows "(\<exists>cs'. glx_update_fbconfig gd ps =
            Inr (cs', gd', fbconfigs gd' ! nat (sint (depth ps)) \<noteq> None)) \<and>
         (fbconfigs gd' ! nat (sint (depth ps)) \<noteq> None \<and> fbconfigs gd' ! 32 = None \<longrightarrow>
            glx_update_fbconfig gd ps =
              Inr (cs @ [LogError ''No FBConfig found for depth 32. compton may not work correctly''],
                   gd', True))"
proof -
  have len: "length (fbconfigs gd') = 33"
    using loop_length [OF assms(4)] assms(1) by (simp add: OPENGL_MAX_DEPTH_def)
  have idx: "nat (sint (depth ps)) < 33"
    using assms(2,3) by (simp add: OPENGL_MAX_DEPTH_def)
  show ?thesis
    using len idx assms(2,4)
    by (auto simp: glx_update_fbconfig_def glx_update_fbconfig_checks_def fbconfigs_get_def
        split: option.splits)
qed

theorem glx_update_fbconfig_default_depth_witness:
  "glx_update_fbconfig example_gd_empty example_ps_rgb_only =
     Inr ([LogError ''No FBConfig found for depth 32. compton may not work correctly''],
          example_gd_rgb, True) \<and>
   fbconfigs example_gd \<noteq> fbconfigs example_gd_empty \<and>
   (\<exists>cs'. glx_update_fbconfig example_gd_empty example_ps_rgba_only =
      Inr (cs', example_gd, False))"
proof -
  have len: "length (fbconfigs example_gd_empty) = Suc (unat OPENGL_MAX_DEPTH)"
    by (simp add: example_gd_empty_def OPENGL_MAX_DEPTH_def)
  have d1: "0 \<le> sint (depth example_ps_rgb_only)"
           "sint (depth example_ps_rgb_only) \<le> sint OPENGL_MAX_DEPTH"
    by (simp_all add: example_ps_rgb_only_def example_ps_def OPENGL_MAX_DEPTH_def)
  have d2: "0 \<le> sint (depth example_ps_rgba_only)"
           "sint (depth example_ps_rgba_only) \<le> sint OPENGL_MAX_DEPTH"
    by (simp_all add: example_ps_rgba_only_def example_ps_def OPENGL_MAX_DEPTH_def)
  have l1: "glx_update_fbconfig_loop example_ps_rgb_only example_gd_empty
              (screen_fbconfigs (dpy example_ps_rgb_only)) = Inr ([], example_gd_rgb)"
    by (simp add: example_ps_rgb_only_def example_ps_def example_dpy_def example_attribs_def
        example_gd_rgb_def example_gd_empty_def
        glx_update_fbconfig_round_def glx_update_fbconfig_offers_def glXGetFBConfigAttrib_def
        glx_update_fbconfig_bydepth_def fbconfigs_get_def fbconfigs_set_def
        glx_cmp_fbconfig_def Let_def OPENGL_MAX_DEPTH_def word_sle_eq word_sless_alt)
  have l2: "glx_update_fbconfig_loop example_ps_rgba_only example_gd_empty
              (screen_fbconfigs (dpy example_ps_rgba_only)) = Inr ([], example_gd)"
    by (simp add: example_ps_rgba_only_def example_ps_def example_dpy_def example_attribs_def
        example_gd_def example_gd_empty_def example_fbc_def
        glx_update_fbconfig_round_def glx_update_fbconfig_offers_def glXGetFBConfigAttrib_def
        glx_update_fbconfig_bydepth_def fbconfigs_get_def fbconfigs_set_def
        glx_cmp_fbconfig_def Let_def OPENGL_MAX_DEPTH_def word_sle_eq word_sless_alt)
  have e1: "fbconfigs example_gd_rgb ! nat (sint (depth example_ps_rgb_only)) \<noteq> None"
           "fbconfigs example_gd_rgb ! 32 = None"
    by (simp_all add: example_gd_rgb_def example_gd_empty_def example_ps_rgb_only_def
        example_ps_def)
  have e2: "fbconfigs example_gd ! nat (sint (depth example_ps_rgba_only)) = None"
    by (simp add: example_gd_def example_gd_empty_def example_ps_rgba_only_def example_ps_def)
  have ne: "fbconfigs example_gd \<noteq> fbconfigs example_gd_empty"
  proof
    assume "fbconfigs example_gd = fbconfigs example_gd_empty"
    then have "fbconfigs example_gd ! 32 = fbconfigs example_gd_empty ! 32" by simp
    then show False by (simp add: example_gd_def example_gd_empty_def)
  qed
  show ?thesis
    using glx_update_fbconfig_default_depth [OF len d1 l1]
          glx_update_fbconfig_default_depth [OF len d2 l2] e1 e2 ne
    by simp
qed

subsection \<open>Window bindings\<close>

text \<open>
  C1 at a binding over a pixmap named for the window (owned: it differs from
  the window id): \<open>glx_release_win\<close> releases the binding, destroys the
  bridge object, deletes the texture and frees the structure; it makes no call
  that frees the pixmap.
\<close>
theorem glx_release_win_keeps_pixmap:
  "pixmap example_wd \<noteq> 0 \<and> pixmap example_wd \<noteq> id example_win \<and>
   glx_release_win example_gd example_ps example_win example_wd =
     [GlBindTexture GL_TEXTURE_2D 9,
      GlXReleaseTexImage 0x600001 GLX_FRONT_LEFT_EXT,
      GlBindTexture GL_TEXTURE_2D 0,
      GlXDestroyPixmap 0x600001,
      GlCheckErr,
      GlDeleteTextures 9,
      Free_win_data] \<and>
   freed_pixmaps (glx_release_win example_gd example_ps example_win example_wd) = []"
  by (simp add: glx_release_win_def glx_release_pixmap_def example_wd_def example_win_def)

text \<open>
  C7: \<open>glx_prepare_win\<close> returns on the table of \<open>OPENGL_MAX_DEPTH + 1\<close>
  entries. Whenever it returns null, every bridge object it created has been
  destroyed and no texture was created; whenever it returns a binding, bridge
  handle and texture are both non-null and are the only objects created, none
  destroyed. When the creation of the bridge object fails, it returns null,
  having freed the pixmap exactly when the pixmap differs from the window id,
  and having created neither a bridge object nor a texture.
\<close>
theorem glx_prepare_win_rollback:
  "(length (fbconfigs gd) = Suc (unat OPENGL_MAX_DEPTH) \<longrightarrow>
      (\<exists>cs r. glx_prepare_win gd ps w = Inr (cs, r))) \<and>
   (glx_prepare_win gd ps w = Inr (cs, r) \<longrightarrow>
      (case r of
         None \<Rightarrow> destroyed_glpixmaps cs = created_glpixmaps cs \<and> created_textures cs = []
       | Some wd \<Rightarrow>
           glpixmap wd \<noteq> 0 \<and> texture (wd_texture wd) \<noteq> 0 \<and>
           created_glpixmaps cs = [glpixmap wd] \<and> destroyed_glpixmaps cs = [] \<and>
           created_textures cs = [texture (wd_texture wd)] \<and> deleted_textures cs = [])) \<and>
   (\<not> OPENGL_MAX_DEPTH <s ucast (g_depth w) \<and>
    fbconfigs_get gd (ucast (g_depth w)) = Inr (Some pcfg) \<and>
    pm = (if has_name_pixmap ps then generate_id (dpy ps) else id w) \<and> pm \<noteq> 0 \<and>
    create_glx_pixmap (dpy ps) (cfg pcfg) pm = 0 \<longrightarrow>
      (\<exists>cs'. glx_prepare_win gd ps w = Inr (cs', None) \<and>
             freed_pixmaps cs' = (if pm \<noteq> id w then [pm] else []) \<and>
             created_glpixmaps cs' = [] \<and> created_textures cs' = []))"
proof (intro conjI impI)
  assume "length (fbconfigs gd) = Suc (unat OPENGL_MAX_DEPTH)"
  then show "\<exists>cs r. glx_prepare_win gd ps w = Inr (cs, r)" by (rule prepare_win_returns)
next
  assume "glx_prepare_win gd ps w = Inr (cs, r)"
  then show "case r of
         None \<Rightarrow> destroyed_glpixmaps cs = created_glpixmaps cs \<and> created_textures cs = []
       | Some wd \<Rightarrow>
           glpixmap wd \<noteq> 0 \<and> texture (wd_texture wd) \<noteq> 0 \<and>
           created_glpixmaps cs = [glpixmap wd] \<and> destroyed_glpixmaps cs = [] \<and>
           created_textures cs = [texture (wd_texture wd)] \<and> deleted_textures cs = []"
    by (rule prepare_win_outcome)
next
  assume "\<not> OPENGL_MAX_DEPTH <s ucast (g_depth w) \<and>
    fbconfigs_get gd (ucast (g_depth w)) = Inr (Some pcfg) \<and>
    pm = (if has_name_pixmap ps then generate_id (dpy ps) else id w) \<and> pm \<noteq> 0 \<and>
    create_glx_pixmap (dpy ps) (cfg pcfg) pm = 0"
  then show "\<exists>cs'. glx_prepare_win gd ps w = Inr (cs', None) \<and>
             freed_pixmaps cs' = (if pm \<noteq> id w then [pm] else []) \<and>
             created_glpixmaps cs' = [] \<and> created_textures cs' = []"
    by (cases "has_name_pixmap ps")
       (auto simp: glx_prepare_win_def glx_prepare_win_err_def Let_def)
qed

theorem glx_prepare_win_rollback_witness:
  "length (fbconfigs example_gd) = Suc (unat OPENGL_MAX_DEPTH) \<and>
   (\<exists>cs'. glx_prepare_win example_gd example_ps_no_bridge example_win = Inr (cs', None) \<and>
      freed_pixmaps cs' = [0x400001] \<and> created_glpixmaps cs' = [] \<and> created_textures cs' = []) \<and>
   (\<exists>cs wd. glx_prepare_win example_gd example_ps example_win = Inr (cs, Some wd) \<and>
      glpixmap wd = 0x600001 \<and> texture (wd_texture wd) = 9 \<and>
      created_glpixmaps cs = [glpixmap wd] \<and> destroyed_glpixmaps cs = [] \<and>
      created_textures cs = [texture (wd_texture wd)] \<and> deleted_textures cs = [])"
proof -
  have g: "fbconfigs_get example_gd (ucast (g_depth example_win)) = Inr (Some (example_fbc 3))"
    by (simp add: fbconfigs_get_def example_gd_def example_gd_empty_def example_win_def)
  have d: "\<not> OPENGL_MAX_DEPTH <s ucast (g_depth example_win)"
    by (simp add: OPENGL_MAX_DEPTH_def example_win_def)
  have a: "\<exists>cs'. glx_prepare_win example_gd example_ps_no_bridge example_win = Inr (cs', None) \<and>
      freed_pixmaps cs' = [0x400001] \<and> created_glpixmaps cs' = [] \<and> created_textures cs' = []"
    using glx_prepare_win_rollback
      [of example_gd example_ps_no_bridge example_win "[]" None "example_fbc 3" "0x400001"] g d
    by (simp add: example_ps_no_bridge_def example_ps_def example_dpy_def example_win_def)
  obtain cs wd where e: "glx_prepare_win example_gd example_ps example_win = Inr (cs, Some wd)"
    and h: "glpixmap wd = 0x600001" "texture (wd_texture wd) = 9"
    using g d by (simp add: glx_prepare_win_def Let_def example_ps_def example_dpy_def
        example_win_def)
  have b: "created_glpixmaps cs = [glpixmap wd] \<and> destroyed_glpixmaps cs = [] \<and>
      created_textures cs = [texture (wd_texture wd)] \<and> deleted_textures cs = []"
    using glx_prepare_win_rollback [of example_gd example_ps example_win cs "Some wd"] e
    by simp
  show ?thesis using example_gd_len a e h b by blast
qed

subsection \<open>Teardown\<close>

text \<open>
  C2 at a session whose window list holds one window with a live binding, on
  the table of \<open>OPENGL_MAX_DEPTH + 1\<close> entries: \<open>glx_deinit\<close> frees the
  two blur shaders, the main program, the 33 table entries, the context and
  its own structure, in this order, and makes no call for the window: it
  deletes no texture and destroys no bridge object, while the destroy path of
  that binding, \<open>glx_release_win\<close>, deletes texture 9 and destroys bridge
  object 0x600001. The loop commented \<open>Free all GLX resources of windows\<close>
  calls \<open>free_win_res_glx\<close>, whose statements are commented out.
\<close>
theorem glx_deinit_skips_bindings:
  "win_list example_ps = [example_win] \<and>
   win_data example_win = Some example_wd \<and>
   deleted_textures (glx_release_win example_gd example_ps example_win example_wd) = [9] \<and>
   destroyed_glpixmaps (glx_release_win example_gd example_ps example_win example_wd) = [0x600001] \<and>
   glx_deinit example_gd example_ps = Inr example_deinit_calls \<and>
   deleted_textures example_deinit_calls = [] \<and>
   destroyed_glpixmaps example_deinit_calls = []"
proof -
  have w: "win_list example_ps = [example_win]" "win_data example_win = Some example_wd"
    by (simp_all add: example_ps_def example_win_def)
  have r: "deleted_textures (glx_release_win example_gd example_ps example_win example_wd) = [9]"
    "destroyed_glpixmaps (glx_release_win example_gd example_ps example_win example_wd) = [0x600001]"
    by (simp_all add: glx_release_win_def glx_release_pixmap_def example_wd_def)
  have d: "deleted_textures example_deinit_calls = []"
    "destroyed_glpixmaps example_deinit_calls = []"
    using no_objects_in_frees [of "\<lambda>i. None" "[0 ..< 32]"]
    by (simp_all add: example_deinit_calls_def)
  show ?thesis using w r d example_deinit by simp
qed

subsection \<open>Presenting and composing\<close>

text \<open>
  C8: \<open>glx_buffer_age\<close> returns \<open>-1\<close> whenever the swap method is not
  \<open>SWAPM_BUFFER_AGE\<close>, whatever the driver reports; with that swap method
  and an age reported for the target drawable, it returns the age if it is not
  0 and \<open>-1\<close> otherwise.
\<close>
theorem glx_buffer_age_sentinel:
  "(glx_swap_method ps \<noteq> SWAPM_BUFFER_AGE \<longrightarrow> glx_buffer_age gd ps = Inr (- 1)) \<and>
   (glx_swap_method ps = SWAPM_BUFFER_AGE \<and>
    back_buffer_age (dpy ps) (get_tgt_window ps) = Some age \<longrightarrow>
      glx_buffer_age gd ps = Inr (if age \<noteq> 0 then age else - 1))"
  by (simp add: glx_buffer_age_def)

theorem glx_buffer_age_sentinel_witness:
  "back_buffer_age (dpy example_ps_copy) (get_tgt_window example_ps_copy) = Some 3 \<and>
   glx_buffer_age example_gd example_ps_copy = Inr (- 1) \<and>
   glx_buffer_age example_gd example_ps = Inr 3 \<and>
   glx_buffer_age example_gd example_ps_age0 = Inr (- 1)"
  using glx_buffer_age_sentinel [of example_ps_copy example_gd 3]
        glx_buffer_age_sentinel [of example_ps example_gd 3]
        glx_buffer_age_sentinel [of example_ps_age0 example_gd 0]
  by (simp add: example_ps_copy_def example_ps_age0_def example_ps_def example_dpy_def)

text \<open>
  C6: for a binding whose texture is not y-inverted, \<open>glx_compose\<close> makes
  one \<open>gl_compose\<close> call; the region it passes has, for each rectangle of the
  clip region and in the same order, the rectangle with \<open>y1\<close> replaced by
  \<open>root_height - y2\<close> and \<open>y2\<close> by \<open>root_height - y1\<close>; the vertical
  offset it passes is \<open>root_height - dst_y - heightb\<close>, the horizontal one
  \<open>dst_x\<close>. With height 100 the region of the one rectangle (0,0)-(10,20)
  is passed as (0,80)-(10,100).
\<close>
theorem glx_compose_flip:
  assumes "\<not> tex_y_inverted (wd_texture wd)"
  shows "\<exists>a. glx_compose gd ps w wd dst_x dst_y region = [GlCompose a] \<and>
             arg_reg_tgt a =
               map (\<lambda>r. r\<lparr>y1 := root_height ps - y2 r, y2 := root_height ps - y1 r\<rparr>) region \<and>
             arg_dx a = dst_x \<and>
             arg_dy a = root_height ps - dst_y - heightb w \<and>
             (root_height ps = 100 \<and> region = [\<lparr>x1 = 0, y1 = 0, x2 = 10, y2 = 20\<rparr>] \<longrightarrow>
                arg_reg_tgt a = [\<lparr>x1 = 0, y1 = 80, x2 = 10, y2 = 100\<rparr>])"
  by (auto simp: glx_compose_def flip_rect_def Let_def)

theorem glx_compose_flip_witness:
  "\<not> tex_y_inverted (wd_texture example_wd) \<and> root_height example_ps = 100 \<and>
   (\<exists>a. glx_compose example_gd example_ps example_win example_wd 5 7
            [\<lparr>x1 = 0, y1 = 0, x2 = 10, y2 = 20\<rparr>] = [GlCompose a] \<and>
        arg_reg_tgt a = [\<lparr>x1 = 0, y1 = 80, x2 = 10, y2 = 100\<rparr>] \<and>
        arg_dx a = 5 \<and> arg_dy a = 73)"
proof -
  have n: "\<not> tex_y_inverted (wd_texture example_wd)" by (simp add: example_wd_def)
  have h: "root_height example_ps = 100" "heightb example_win = 20"
    by (simp_all add: example_ps_def example_win_def)
  obtain a where
    "glx_compose example_gd example_ps example_win example_wd 5 7
        [\<lparr>x1 = 0, y1 = 0, x2 = 10, y2 = 20\<rparr>] = [GlCompose a]"
    "arg_dx a = 5" "arg_dy a = root_height example_ps - 7 - heightb example_win"
    "arg_reg_tgt a = [\<lparr>x1 = 0, y1 = 80, x2 = 10, y2 = 100\<rparr>]"
    using glx_compose_flip [OF n, of example_gd example_ps example_win 5 7
        "[\<lparr>x1 = 0, y1 = 0, x2 = 10, y2 = 20\<rparr>]"] h
    by auto
  then show ?thesis using n h by auto
qed

end
